theory Spec2Isabelle
  imports Complex_Main
begin

section \<open>JavaScript values\<close>

text \<open>
  The data-access layer (\<^verbatim>\<open>src/core/mysql.core.js\<close>) and the cache helper
  (\<^verbatim>\<open>redis.core.js\<close>) work on untyped JavaScript values. The model keeps the
  shapes the code distinguishes with \<^verbatim>\<open>typeof\<close>, \<^verbatim>\<open>Array.isArray\<close>, truthiness and
  \<^verbatim>\<open>JSON.stringify\<close>. Numbers are the integer-valued ones (exact below \<open>2^53\<close>) plus
  \<^verbatim>\<open>NaN\<close> and the two infinities; strings are byte strings. An object is the list of its
  own enumerable entries in the order \<^verbatim>\<open>Object.keys\<close> / \<^verbatim>\<open>Object.entries\<close> yield them,
  which for keys that are not array indices is insertion order.
\<close>

datatype jsval =
    JUndefined
  | JNull
  | JBool bool
  | JNum int
  | JNaN
  | JInfinity
  | JNegInfinity
  | JStr string
  | JArr "jsval list"
  | JObj "(string \<times> jsval) list"

text \<open>A thrown JavaScript exception: the constructor name and the message.\<close>

datatype error = Error string | TypeError string

text \<open>\<^verbatim>\<open>String(err)\<close>, the message \<^verbatim>\<open>new Error(err)\<close> gets.\<close>

fun error_toString :: "error \<Rightarrow> string" where
  "error_toString (Error m) = ''Error: '' @ m"
| "error_toString (TypeError m) = ''TypeError: '' @ m"

text \<open>\<^verbatim>\<open>throw new Error(error)\<close> inside a \<^verbatim>\<open>catch (error)\<close> block.\<close>

definition rethrow :: "error \<Rightarrow> error" where
  "rethrow e = Error (error_toString e)"

subsection \<open>Strings and numbers\<close>

text \<open>\<^verbatim>\<open>Array.prototype.join\<close> on an array of strings.\<close>

fun join :: "string \<Rightarrow> string list \<Rightarrow> string" where
  "join sep [] = []"
| "join sep [x] = x"
| "join sep (x # y # ys) = x @ sep @ join sep (y # ys)"

definition digit_char :: "nat \<Rightarrow> char" where
  "digit_char d = ''0123456789abcdef'' ! d"

function nat_toString :: "nat \<Rightarrow> string" where
  "nat_toString n =
     (if n < 10 then [digit_char n] else nat_toString (n div 10) @ [digit_char (n mod 10)])"
  by pat_completeness auto
termination
  by (relation "measure id") auto

definition int_toString :: "int \<Rightarrow> string" where
  "int_toString i = (if i < 0 then CHR ''-'' # nat_toString (nat (- i)) else nat_toString (nat i))"

text \<open>
  The abstract operation \<^verbatim>\<open>ToString\<close>, as used by template literals, \<^verbatim>\<open>String(v)\<close> and
  \<^verbatim>\<open>join\<close>. An array prints its elements separated by commas, \<^verbatim>\<open>null\<close> and
  \<^verbatim>\<open>undefined\<close> elements as the empty string; a plain object prints as
  \<^verbatim>\<open>[object Object]\<close>.
\<close>

fun toString :: "jsval \<Rightarrow> string" where
  "toString JUndefined = ''undefined''"
| "toString JNull = ''null''"
| "toString (JBool b) = (if b then ''true'' else ''false'')"
| "toString (JNum n) = int_toString n"
| "toString JNaN = ''NaN''"
| "toString JInfinity = ''Infinity''"
| "toString JNegInfinity = ''-Infinity''"
| "toString (JStr s) = s"
| "toString (JArr xs) =
     join '','' (map (\<lambda>x. if x = JUndefined \<or> x = JNull then [] else toString x) xs)"
| "toString (JObj es) = ''[object Object]''"

text \<open>Truthiness (\<^verbatim>\<open>!v\<close> is its negation).\<close>

fun truthy :: "jsval \<Rightarrow> bool" where
  "truthy JUndefined = False"
| "truthy JNull = False"
| "truthy (JBool b) = b"
| "truthy (JNum n) = (n \<noteq> 0)"
| "truthy JNaN = False"
| "truthy (JStr s) = (s \<noteq> [])"
| "truthy _ = True"

text \<open>\<^verbatim>\<open>typeof v === 'object'\<close> (true of \<^verbatim>\<open>null\<close> and of arrays) and \<^verbatim>\<open>Array.isArray\<close>.\<close>

fun typeof_object :: "jsval \<Rightarrow> bool" where
  "typeof_object JNull = True"
| "typeof_object (JArr xs) = True"
| "typeof_object (JObj es) = True"
| "typeof_object _ = False"

fun isArray :: "jsval \<Rightarrow> bool" where
  "isArray (JArr xs) = True"
| "isArray _ = False"

text \<open>
  The guard \<^verbatim>\<open>typeof v === 'object' && !Array.isArray(v)\<close>; the checks spelled
  \<^verbatim>\<open>typeof v !== 'object' || Array.isArray(v)\<close> are its negation. It lets \<^verbatim>\<open>null\<close>
  through.
\<close>

definition is_plain_object :: "jsval \<Rightarrow> bool" where
  "is_plain_object v = (typeof_object v \<and> \<not> isArray v)"

text \<open>
  \<^verbatim>\<open>Object.entries(v)\<close>: a \<^verbatim>\<open>TypeError\<close> on \<^verbatim>\<open>null\<close> and \<^verbatim>\<open>undefined\<close>, the indexed
  elements of an array or the characters of a string, nothing for the other primitives.
\<close>

fun indexed :: "nat \<Rightarrow> jsval list \<Rightarrow> (string \<times> jsval) list" where
  "indexed i [] = []"
| "indexed i (x # xs) = (nat_toString i, x) # indexed (Suc i) xs"

fun entries :: "jsval \<Rightarrow> error + (string \<times> jsval) list" where
  "entries JUndefined = Inl (TypeError ''Cannot convert undefined or null to object'')"
| "entries JNull = Inl (TypeError ''Cannot convert undefined or null to object'')"
| "entries (JObj es) = Inr es"
| "entries (JArr xs) = Inr (indexed 0 xs)"
| "entries (JStr s) = Inr (indexed 0 (map (\<lambda>c. JStr [c]) s))"
| "entries _ = Inr []"

section \<open>The query builder\<close>

text \<open>The table binding of a \<^verbatim>\<open>mysqlserver\<close> instance (the constructor's three fields).\<close>

record mysqlserver =
  tableName :: string
  primaryField :: string
  sortKey :: string

text \<open>\<^verbatim>\<open>_escapeFieldName\<close>: wrap in backticks, doubling every backtick inside.\<close>

definition escapeFieldName :: "string \<Rightarrow> string" where
  "escapeFieldName fieldName =
     ''`'' @ concat (map (\<lambda>c. if c = CHR ''`'' then ''``'' else [c]) fieldName) @ ''`''"

text \<open>
  The loop of \<^verbatim>\<open>_buildWhereClause\<close> over \<^verbatim>\<open>Object.entries(filter)\<close>, pushing onto
  \<^verbatim>\<open>conditions\<close> and \<^verbatim>\<open>values\<close>. \<^verbatim>\<open>likeFields.includes(key)\<close> compares the string key
  with the elements of the array.
\<close>

fun whereLoop ::
  "jsval list \<Rightarrow> (string \<times> jsval) list \<Rightarrow> string list \<Rightarrow> jsval list \<Rightarrow> string list \<times> jsval list"
where
  "whereLoop likeFields [] conditions vals = (conditions, vals)"
| "whereLoop likeFields ((key, v) # es) conditions vals =
     (if v \<noteq> JUndefined \<and> v \<noteq> JNull then
        (if JStr key \<in> set likeFields then
           whereLoop likeFields es
             (conditions @ [escapeFieldName key @ '' LIKE ?''])
             (vals @ [JStr (''%'' @ toString v @ ''%'')])
         else
           whereLoop likeFields es
             (conditions @ [escapeFieldName key @ '' = ?''])
             (vals @ [v]))
      else whereLoop likeFields es conditions vals)"

text \<open>\<^verbatim>\<open>_buildWhereClause(filter, likeFields)\<close>, returning \<^verbatim>\<open>{ where, values }\<close> as a pair.\<close>

definition buildWhereClause :: "jsval \<Rightarrow> jsval list \<Rightarrow> error + string \<times> jsval list" where
  "buildWhereClause filt likeFields =
     (case entries filt of
        Inl e \<Rightarrow> Inl e
      | Inr es \<Rightarrow>
          if length es = 0 then Inr ([], [])
          else
            (case whereLoop likeFields es [] [] of
               (conditions, vals) \<Rightarrow>
                 Inr (if length conditions > 0 then ''WHERE '' @ join '' AND '' conditions else [],
                      vals)))"

subsection \<open>The WHERE clause as the specification words it\<close>

text \<open>
  The entries that constrain the query are those whose value is neither \<^verbatim>\<open>null\<close> nor
  \<^verbatim>\<open>undefined\<close>; each yields one condition and one bound value.
\<close>

definition constraining :: "(string \<times> jsval) list \<Rightarrow> (string \<times> jsval) list" where
  "constraining es = filter (\<lambda>(key, v). v \<noteq> JNull \<and> v \<noteq> JUndefined) es"

definition condition_of :: "jsval list \<Rightarrow> string \<times> jsval \<Rightarrow> string" where
  "condition_of likeFields e =
     (if JStr (fst e) \<in> set likeFields then escapeFieldName (fst e) @ '' LIKE ?''
      else escapeFieldName (fst e) @ '' = ?'')"

definition bound_of :: "jsval list \<Rightarrow> string \<times> jsval \<Rightarrow> jsval" where
  "bound_of likeFields e =
     (if JStr (fst e) \<in> set likeFields then JStr (''%'' @ toString (snd e) @ ''%'') else snd e)"

definition where_spec :: "jsval list \<Rightarrow> (string \<times> jsval) list \<Rightarrow> string \<times> jsval list" where
  "where_spec likeFields es =
     (if constraining es = [] then ([], [])
      else (''WHERE '' @ join '' AND '' (map (condition_of likeFields) (constraining es)),
            map (bound_of likeFields) (constraining es)))"

subsection \<open>ORDER BY\<close>

definition is_space :: "char \<Rightarrow> bool" where
  "is_space c = (c \<in> set [CHR 0x09, CHR 0x0A, CHR 0x0B, CHR 0x0C, CHR 0x0D, CHR 0x20])"

text \<open>\<^verbatim>\<open>String.prototype.trim\<close> and \<^verbatim>\<open>toUpperCase\<close> on the ASCII range.\<close>

definition trim :: "string \<Rightarrow> string" where
  "trim s = rev (dropWhile is_space (rev (dropWhile is_space s)))"

definition toUpperCase :: "string \<Rightarrow> string" where
  "toUpperCase s =
     map (\<lambda>c. if 97 \<le> (of_char c :: nat) \<and> (of_char c :: nat) \<le> 122
              then char_of ((of_char c :: nat) - 32) else c) s"

text \<open>One sort field of \<^verbatim>\<open>_buildOrderByClause\<close>: the arrow function mapped over the entries.\<close>

definition sortField :: "string \<times> jsval \<Rightarrow> string" where
  "sortField e =
     escapeFieldName (fst e) @ '' '' @
     (if snd e = JNum (- 1) \<or> toUpperCase (toString (snd e)) = ''DESC'' then ''DESC'' else ''ASC'')"

text \<open>
  \<^verbatim>\<open>_buildOrderByClause(orderBy)\<close>: a non-blank string is taken literally, a non-empty
  object gives one sort field per entry, anything else falls back to the primary field,
  descending. \<^verbatim>\<open>Object.keys(null)\<close> throws.
\<close>

definition buildOrderByClause :: "mysqlserver \<Rightarrow> jsval \<Rightarrow> error + string" where
  "buildOrderByClause this orderBy =
     (case orderBy of
        JStr s \<Rightarrow>
          if trim s \<noteq> [] then Inr (''ORDER BY '' @ s)
          else Inr (''ORDER BY '' @ escapeFieldName (primaryField this) @ '' DESC'')
      | _ \<Rightarrow>
          if typeof_object orderBy then
            (case entries orderBy of
               Inl e \<Rightarrow> Inl e
             | Inr es \<Rightarrow>
                 if length es > 0 then Inr (''ORDER BY '' @ join '', '' (map sortField es))
                 else Inr (''ORDER BY '' @ escapeFieldName (primaryField this) @ '' DESC''))
          else Inr (''ORDER BY '' @ escapeFieldName (primaryField this) @ '' DESC''))"

subsection \<open>JSON.stringify and cache keys\<close>

text \<open>
  The quoting of \<^verbatim>\<open>JSON.stringify\<close>: the double quote and the backslash are escaped with
  a backslash, control characters by their short form or as \<^verbatim>\<open>\u00XX\<close>.
\<close>

definition json_quote_char :: "char \<Rightarrow> string" where
  "json_quote_char c =
     (if c = CHR 0x22 then [CHR 0x5C, CHR 0x22]
      else if c = CHR 0x5C then [CHR 0x5C, CHR 0x5C]
      else if c = CHR 0x08 then [CHR 0x5C, CHR ''b'']
      else if c = CHR 0x0C then [CHR 0x5C, CHR ''f'']
      else if c = CHR 0x0A then [CHR 0x5C, CHR ''n'']
      else if c = CHR 0x0D then [CHR 0x5C, CHR ''r'']
      else if c = CHR 0x09 then [CHR 0x5C, CHR ''t'']
      else if (of_char c :: nat) < 32 then
        [CHR 0x5C, CHR ''u'', CHR ''0'', CHR ''0'',
         digit_char ((of_char c :: nat) div 16), digit_char ((of_char c :: nat) mod 16)]
      else [c])"

definition json_quote :: "string \<Rightarrow> string" where
  "json_quote s = [CHR 0x22] @ concat (map json_quote_char s) @ [CHR 0x22]"

text \<open>
  \<^verbatim>\<open>JSON.stringify(v)\<close>; \<open>None\<close> is the result \<^verbatim>\<open>undefined\<close>. An object writes its
  entries in enumeration order and leaves out those whose value has no JSON form; an array
  writes such elements as \<^verbatim>\<open>null\<close>.
\<close>

fun stringify :: "jsval \<Rightarrow> string option" where
  "stringify JUndefined = None"
| "stringify JNull = Some ''null''"
| "stringify (JBool b) = Some (if b then ''true'' else ''false'')"
| "stringify (JNum n) = Some (int_toString n)"
| "stringify JNaN = Some ''null''"
| "stringify JInfinity = Some ''null''"
| "stringify JNegInfinity = Some ''null''"
| "stringify (JStr s) = Some (json_quote s)"
| "stringify (JArr xs) =
     Some (''['' @ join '','' (map (\<lambda>x. case stringify x of None \<Rightarrow> ''null'' | Some s \<Rightarrow> s) xs)
           @ '']'')"
| "stringify (JObj es) =
     Some (''{'' @ join '',''
             (concat (map (\<lambda>e. case stringify (snd e) of
                                   None \<Rightarrow> []
                                 | Some s \<Rightarrow> [json_quote (fst e) @ '':'' @ s]) es))
           @ ''}'')"

definition JSON_stringify :: "jsval \<Rightarrow> jsval" where
  "JSON_stringify v = (case stringify v of None \<Rightarrow> JUndefined | Some s \<Rightarrow> JStr s)"

text \<open>\<^verbatim>\<open>Array.prototype.join\<close> on an array of values, as the cache keys are built.\<close>

definition array_join :: "string \<Rightarrow> jsval list \<Rightarrow> string" where
  "array_join sep xs =
     join sep (map (\<lambda>x. if x = JUndefined \<or> x = JNull then [] else toString x) xs)"

subsection \<open>parseInt\<close>

definition digit_value :: "char \<Rightarrow> nat option" where
  "digit_value c =
     (if 48 \<le> (of_char c :: nat) \<and> (of_char c :: nat) \<le> 57 then Some ((of_char c :: nat) - 48)
      else if 97 \<le> (of_char c :: nat) \<and> (of_char c :: nat) \<le> 122 then Some ((of_char c :: nat) - 87)
      else if 65 \<le> (of_char c :: nat) \<and> (of_char c :: nat) \<le> 90 then Some ((of_char c :: nat) - 55)
      else None)"

definition is_digit :: "nat \<Rightarrow> char \<Rightarrow> bool" where
  "is_digit radix c = (case digit_value c of None \<Rightarrow> False | Some d \<Rightarrow> d < radix)"

definition digits_value :: "nat \<Rightarrow> string \<Rightarrow> nat" where
  "digits_value radix ds =
     foldl (\<lambda>acc c. acc * radix + (case digit_value c of None \<Rightarrow> 0 | Some d \<Rightarrow> d)) 0 ds"

text \<open>
  \<^verbatim>\<open>parseInt(v)\<close> with no radix: the argument is converted to a string, leading white
  space and a sign are skipped, a \<^verbatim>\<open>0x\<close> prefix selects base 16, and the longest run
  of digits is read; no digit gives \<^verbatim>\<open>NaN\<close>.
\<close>

definition parseInt :: "jsval \<Rightarrow> jsval" where
  "parseInt v =
     (let s = dropWhile is_space (toString v);
          neg = (take 1 s = ''-'');
          s1 = (if take 1 s = ''-'' \<or> take 1 s = ''+'' then drop 1 s else s);
          radix = (if take 2 s1 = ''0x'' \<or> take 2 s1 = ''0X'' then 16 else 10);
          s2 = (if take 2 s1 = ''0x'' \<or> take 2 s1 = ''0X'' then drop 2 s1 else s1);
          ds = takeWhile (is_digit radix) s2
      in if ds = [] then JNaN
         else JNum (if neg then - int (digits_value radix ds) else int (digits_value radix ds)))"

section \<open>The environment: primary store and cache backend\<close>

text \<open>
  The code talks to two collaborators: a pooled MySQL connection
  (\<^verbatim>\<open>connection.query\<close>) and a Redis client (\<^verbatim>\<open>redisClient.get/set/expire\<close>). Every call
  made to one of them is recorded as an event; the trace of events so far is the state
  that the operations pass along. What a collaborator answers may depend on the whole
  trace, so a table or a cache that changes between two calls is covered. Logging is not
  recorded.
\<close>

datatype event =
    Query string "jsval list"
  | RedisGet string
  | RedisSet string jsval
  | RedisExpire string int

type_synonym trace = "event list"

text \<open>
  What the driver resolves \<^verbatim>\<open>[rows]\<close> to: the rows of a result set, or the header of a
  data-changing statement with its \<^verbatim>\<open>affectedRows\<close> and \<^verbatim>\<open>insertId\<close> (the two fields
  of the header the code reads; its other fields are left out).
\<close>

datatype dbresult = Rows "jsval list" | ResultSetHeader int int

text \<open>
  A client call that is not awaited at once can throw while it is being made, or hand
  back a promise that is later fulfilled or rejected.
\<close>

datatype 'a settled = Throws error | Fulfilled 'a | Rejected error

text \<open>
  The answers of the two collaborators, the platform's \<^verbatim>\<open>JSON.parse\<close>, and the two
  settings read from \<^verbatim>\<open>config.js\<close> (\<^verbatim>\<open>config.env\<close> and \<^verbatim>\<open>config.redis.expireTTL\<close>),
  which the functions below take as a parameter.
\<close>

record platform =
  mysql_query :: "trace \<Rightarrow> string \<Rightarrow> jsval list \<Rightarrow> error + dbresult"
  redis_get :: "trace \<Rightarrow> string \<Rightarrow> error + string option"
  redis_set :: "trace \<Rightarrow> string \<Rightarrow> jsval \<Rightarrow> jsval settled"
  redis_expire :: "trace \<Rightarrow> string \<Rightarrow> int \<Rightarrow> error + jsval"
  JSON_parse :: "string \<Rightarrow> error + jsval"
  config_env :: string
  config_redis_expireTTL :: int

text \<open>The \<^verbatim>\<open>connection\<close> argument: the value \<^verbatim>\<open>false\<close>, or a connection of the pool.\<close>

datatype connection = ConnFalse | Conn

section \<open>The cache-aside helper\<close>

text \<open>
  \<^verbatim>\<open>getAsync(key)\<close>: the stored string, \<^verbatim>\<open>null\<close> when the key is absent, \<^verbatim>\<open>false\<close> when
  the client fails.
\<close>

definition getAsync :: "platform \<Rightarrow> string \<Rightarrow> trace \<Rightarrow> jsval \<times> trace" where
  "getAsync P key t =
     (let key' = config_env P @ ''_'' @ key in
      case redis_get P t key' of
        Inl e \<Rightarrow> (JBool False, t @ [RedisGet key'])
      | Inr None \<Rightarrow> (JNull, t @ [RedisGet key'])
      | Inr (Some s) \<Rightarrow> (JStr s, t @ [RedisGet key']))"

text \<open>
  \<^verbatim>\<open>setAsync(key, value, expireTTL)\<close>. The call to \<^verbatim>\<open>set\<close> is not awaited: its promise
  is kept in \<^verbatim>\<open>result\<close> and returned after the optional, awaited \<^verbatim>\<open>expire\<close>. The
  \<^verbatim>\<open>try\<close> block therefore catches a throw of \<^verbatim>\<open>set\<close> and a failure of \<^verbatim>\<open>expire\<close>
  (returning \<^verbatim>\<open>false\<close>), while a rejection of the returned promise becomes the
  rejection of \<^verbatim>\<open>setAsync\<close> itself. An absent \<^verbatim>\<open>expireTTL\<close> takes the configured default.
\<close>

definition setAsync ::
  "platform \<Rightarrow> string \<Rightarrow> jsval \<Rightarrow> int option \<Rightarrow> trace \<Rightarrow> (error + jsval) \<times> trace"
where
  "setAsync P key val expireTTL t =
     (let key' = config_env P @ ''_'' @ key;
          ttl = (case expireTTL of None \<Rightarrow> config_redis_expireTTL P | Some n \<Rightarrow> n);
          t1 = t @ [RedisSet key' val]
      in
      case redis_set P t key' val of
        Throws e \<Rightarrow> (Inr (JBool False), t1)
      | Fulfilled v \<Rightarrow>
          if ttl > 0 then
            (case redis_expire P t1 key' ttl of
               Inl e \<Rightarrow> (Inr (JBool False), t1 @ [RedisExpire key' ttl])
             | Inr r \<Rightarrow> (Inr v, t1 @ [RedisExpire key' ttl]))
          else (Inr v, t1)
      | Rejected e \<Rightarrow>
          if ttl > 0 then
            (case redis_expire P t1 key' ttl of
               Inl e' \<Rightarrow> (Inr (JBool False), t1 @ [RedisExpire key' ttl])
             | Inr r \<Rightarrow> (Inl e, t1 @ [RedisExpire key' ttl]))
          else (Inl e, t1))"

text \<open>
  \<^verbatim>\<open>getOrSetCache(key, fetchFunction, expireSeconds)\<close>. The fetch callback is a
  computation over the trace that returns a value or throws. Whatever is thrown inside the
  \<^verbatim>\<open>try\<close> block (by the callback, by \<^verbatim>\<open>JSON.parse\<close> or by \<^verbatim>\<open>setAsync\<close>) is caught and
  \<^verbatim>\<open>null\<close> is returned, so the function itself never throws.
\<close>

definition getOrSetCache ::
  "platform \<Rightarrow> string \<Rightarrow> (trace \<Rightarrow> (error + jsval) \<times> trace) \<Rightarrow> int option \<Rightarrow> trace
   \<Rightarrow> jsval \<times> trace"
where
  "getOrSetCache P key fetchFunction expireSeconds t =
     (case getAsync P key t of
        (cached, t1) \<Rightarrow>
          if \<not> truthy cached then
            (case fetchFunction t1 of
               (Inl e, t2) \<Rightarrow> (JNull, t2)
             | (Inr result, t2) \<Rightarrow>
                 if truthy result then
                   (case setAsync P key (JSON_stringify result) expireSeconds t2 of
                      (Inl e, t3) \<Rightarrow> (JNull, t3)
                    | (Inr stored, t3) \<Rightarrow> (result, t3))
                 else (result, t2))
          else
            (case JSON_parse P (toString cached) of
               Inl e \<Rightarrow> (JNull, t1)
             | Inr v \<Rightarrow> (v, t1)))"

section \<open>The data-access layer\<close>

text \<open>
  \<^verbatim>\<open>queryAsync(connection, sql, values)\<close>: \<^verbatim>\<open>false\<close> (here \<open>None\<close>) without any call when
  the connection is \<^verbatim>\<open>false\<close>; otherwise the statement is sent, and a failure is thrown
  again as a new \<^verbatim>\<open>Error\<close>.
\<close>

definition queryAsync ::
  "platform \<Rightarrow> connection \<Rightarrow> string \<Rightarrow> jsval list \<Rightarrow> trace \<Rightarrow> (error + dbresult option) \<times> trace"
where
  "queryAsync P connection sql vals t =
     (case connection of
        ConnFalse \<Rightarrow> (Inr None, t)
      | Conn \<Rightarrow>
          (case mysql_query P t sql vals of
             Inl e \<Rightarrow> (Inl (rethrow e), t @ [Query sql vals])
           | Inr rows \<Rightarrow> (Inr (Some rows), t @ [Query sql vals])))"

text \<open>The value a caller sees for a result of \<^verbatim>\<open>queryAsync\<close>.\<close>

fun dbresult_value :: "dbresult option \<Rightarrow> jsval" where
  "dbresult_value None = JBool False"
| "dbresult_value (Some (Rows rs)) = JArr rs"
| "dbresult_value (Some (ResultSetHeader a i)) =
     JObj [(''affectedRows'', JNum a), (''insertId'', JNum i)]"

text \<open>
  \<^verbatim>\<open>result.length > 0 ? result[0] : false\<close>. Only a non-empty row array has a positive
  \<^verbatim>\<open>length\<close>; \<^verbatim>\<open>false\<close> and a header have none.
\<close>

fun first_row :: "dbresult option \<Rightarrow> jsval" where
  "first_row (Some (Rows (r # rs))) = r"
| "first_row _ = JBool False"

text \<open>\<^verbatim>\<open>row.CNT\<close>: a \<^verbatim>\<open>TypeError\<close> on \<^verbatim>\<open>null\<close> and \<^verbatim>\<open>undefined\<close>.\<close>

fun row_CNT :: "jsval \<Rightarrow> error + jsval" where
  "row_CNT JUndefined =
     Inl (TypeError (''Cannot read properties of undefined (reading '' @ [CHR 0x27] @ ''CNT''
                     @ [CHR 0x27] @ '')''))"
| "row_CNT JNull =
     Inl (TypeError (''Cannot read properties of null (reading '' @ [CHR 0x27] @ ''CNT''
                     @ [CHR 0x27] @ '')''))"
| "row_CNT (JObj es) = Inr (case map_of es ''CNT'' of None \<Rightarrow> JUndefined | Some v \<Rightarrow> v)"
| "row_CNT _ = Inr JUndefined"

text \<open>\<^verbatim>\<open>result.length > 0 ? parseInt(result[0].CNT) : 0\<close>.\<close>

fun count_of :: "dbresult option \<Rightarrow> error + jsval" where
  "count_of (Some (Rows (r # rs))) =
     (case row_CNT r of Inl e \<Rightarrow> Inl e | Inr c \<Rightarrow> Inr (parseInt c))"
| "count_of _ = Inr (JNum 0)"

text \<open>\<^verbatim>\<open>result.affectedRows > 0\<close>; the property is \<^verbatim>\<open>undefined\<close> unless the result is a header.\<close>

fun affected :: "dbresult option \<Rightarrow> bool" where
  "affected (Some (ResultSetHeader a i)) = (a > 0)"
| "affected _ = False"

text \<open>A parameter with the default \<^verbatim>\<open>{}\<close>, and one with the default \<^verbatim>\<open>''\<close>.\<close>

definition default_object :: "jsval \<Rightarrow> jsval" where
  "default_object v = (if v = JUndefined then JObj [] else v)"

definition default_empty :: "jsval \<Rightarrow> jsval" where
  "default_empty v = (if v = JUndefined then JStr [] else v)"

definition default_expire :: "int option \<Rightarrow> int option" where
  "default_expire e = (case e of None \<Rightarrow> Some 60 | Some n \<Rightarrow> Some n)"

subsection \<open>Reads\<close>

definition findOneByFilterAsync ::
  "platform \<Rightarrow> mysqlserver \<Rightarrow> connection \<Rightarrow> jsval \<Rightarrow> jsval list \<Rightarrow> string \<Rightarrow> trace
   \<Rightarrow> (error + jsval) \<times> trace"
where
  "findOneByFilterAsync P this connection filt likeFields select t =
     (if \<not> is_plain_object (default_object filt)
      then (Inl (Error ''Filter must be an object''), t)
      else
        (case buildWhereClause (default_object filt) likeFields of
           Inl e \<Rightarrow> (Inl e, t)
         | Inr (wh, vals) \<Rightarrow>
             (case queryAsync P connection
                     (''SELECT '' @ select @ '' FROM '' @ escapeFieldName (tableName this)
                      @ '' '' @ wh @ '' LIMIT 1'') vals t of
                (Inl e, t') \<Rightarrow> (Inl (rethrow e), t')
              | (Inr result, t') \<Rightarrow> (Inr (first_row result), t'))))"

definition findByFilterAsync ::
  "platform \<Rightarrow> mysqlserver \<Rightarrow> connection \<Rightarrow> jsval \<Rightarrow> jsval list \<Rightarrow> string \<Rightarrow> jsval \<Rightarrow> trace
   \<Rightarrow> (error + jsval) \<times> trace"
where
  "findByFilterAsync P this connection filt likeFields select orderBy t =
     (if \<not> is_plain_object (default_object filt)
      then (Inl (Error ''Filter must be an object''), t)
      else
        (case buildWhereClause (default_object filt) likeFields of
           Inl e \<Rightarrow> (Inl e, t)
         | Inr (wh, vals) \<Rightarrow>
             (case buildOrderByClause this (default_empty orderBy) of
                Inl e \<Rightarrow> (Inl e, t)
              | Inr orderByClause \<Rightarrow>
                  (case queryAsync P connection
                          (''SELECT '' @ select @ '' FROM '' @ escapeFieldName (tableName this)
                           @ '' '' @ wh @ '' '' @ orderByClause) vals t of
                     (Inl e, t') \<Rightarrow> (Inl (rethrow e), t')
                   | (Inr result, t') \<Rightarrow> (Inr (dbresult_value result), t')))))"

text \<open>The statement of \<^verbatim>\<open>countByFilterAsync\<close>: it counts the primary field.\<close>

definition countByFilterSql :: "mysqlserver \<Rightarrow> string \<Rightarrow> string" where
  "countByFilterSql this wh =
     ''SELECT COUNT('' @ escapeFieldName (primaryField this) @ '') AS CNT FROM ''
     @ escapeFieldName (tableName this) @ '' '' @ wh"

definition countByFilterAsync ::
  "platform \<Rightarrow> mysqlserver \<Rightarrow> connection \<Rightarrow> jsval \<Rightarrow> jsval list \<Rightarrow> trace
   \<Rightarrow> (error + jsval) \<times> trace"
where
  "countByFilterAsync P this connection filt likeFields t =
     (if \<not> is_plain_object (default_object filt)
      then (Inl (Error ''Filter must be an object''), t)
      else
        (case buildWhereClause (default_object filt) likeFields of
           Inl e \<Rightarrow> (Inl e, t)
         | Inr (wh, vals) \<Rightarrow>
             (case queryAsync P connection (countByFilterSql this wh) vals t of
                (Inl e, t') \<Rightarrow> (Inl (rethrow e), t')
              | (Inr result, t') \<Rightarrow>
                  (case count_of result of
                     Inl e \<Rightarrow> (Inl (rethrow e), t')
                   | Inr n \<Rightarrow> (Inr n, t')))))"

subsection \<open>Paging\<close>



definition newline :: string where
  "newline = [CHR 0x0A]"

text \<open>The two statements of \<^verbatim>\<open>findByPageAsync\<close>, as the template literals spell them.\<close>

definition pageSql :: "mysqlserver \<Rightarrow> string \<Rightarrow> string \<Rightarrow> string \<Rightarrow> string" where
  "pageSql this select wh orderByClause =
     newline @ ''      SELECT '' @ select @ '' FROM '' @ escapeFieldName (tableName this)
     @ newline @ ''      '' @ wh
     @ newline @ ''      '' @ orderByClause
     @ newline @ ''      LIMIT ? OFFSET ?''
     @ newline @ ''    ''"

definition countSql :: "mysqlserver \<Rightarrow> string \<Rightarrow> string" where
  "countSql this wh =
     newline @ ''      SELECT COUNT(*) as CNT FROM '' @ escapeFieldName (tableName this)
     @ newline @ ''      '' @ wh
     @ newline @ ''    ''"


subsection \<open>Writes\<close>

definition insertSql :: "mysqlserver \<Rightarrow> string list \<Rightarrow> string" where
  "insertSql this keys =
     ''INSERT INTO '' @ escapeFieldName (tableName this)
     @ '' ('' @ join '', '' (map escapeFieldName keys)
     @ '') VALUES ('' @ join '', '' (map (\<lambda>c. ''?'') keys) @ '')''"

text \<open>
  \<^verbatim>\<open>if (!result) return false; return result.insertId\<close>. A row array is truthy and has
  no \<^verbatim>\<open>insertId\<close>.
\<close>

fun insert_result :: "dbresult option \<Rightarrow> jsval" where
  "insert_result None = JBool False"
| "insert_result (Some (Rows rs)) = JUndefined"
| "insert_result (Some (ResultSetHeader a i)) = JNum i"

text \<open>
  \<^verbatim>\<open>insertAsync(connection, datas)\<close>. The two checks stand before the \<^verbatim>\<open>try\<close> block;
  \<^verbatim>\<open>Object.keys(null)\<close> throws a \<^verbatim>\<open>TypeError\<close> there.
\<close>

definition insertAsync ::
  "platform \<Rightarrow> mysqlserver \<Rightarrow> connection \<Rightarrow> jsval \<Rightarrow> trace \<Rightarrow> (error + jsval) \<times> trace"
where
  "insertAsync P this connection datas t =
     (if \<not> is_plain_object datas then (Inl (Error ''Data must be an object''), t)
      else
        (case entries datas of
           Inl e \<Rightarrow> (Inl e, t)
         | Inr ds \<Rightarrow>
             if length ds = 0 then (Inl (Error ''Data object cannot be empty''), t)
             else
               (case queryAsync P connection (insertSql this (map fst ds)) (map snd ds) t of
                  (Inl e, t') \<Rightarrow> (Inl (rethrow e), t')
                | (Inr result, t') \<Rightarrow> (Inr (insert_result result), t'))))"

text \<open>
  The statement \<^verbatim>\<open>updateByFilterAsync\<close> builds before it touches the connection: the SQL
  text and the bound values, or the error thrown on the way. An object filter becomes
  \<^verbatim>\<open>WHERE\<close> followed by one equality per key; a non-blank string filter is used as the
  whole clause, as it is.
\<close>

definition updateStatement :: "mysqlserver \<Rightarrow> jsval \<Rightarrow> jsval \<Rightarrow> error + string \<times> jsval list" where
  "updateStatement this filt datas =
     (if \<not> is_plain_object datas then Inl (Error ''Data must be an object'')
      else
        (case entries datas of
           Inl e \<Rightarrow> Inl e
         | Inr ds \<Rightarrow>
             if length ds = 0 then Inl (Error ''Data must be an object'')
             else if is_plain_object filt then
               (case entries filt of
                  Inl e \<Rightarrow> Inl e
                | Inr fs \<Rightarrow>
                    Inr (''UPDATE '' @ escapeFieldName (tableName this) @ '' SET ''
                         @ join '', '' (map (\<lambda>key. escapeFieldName key @ '' = ?'') (map fst ds))
                         @ '' '' @ (''WHERE '' @ join '' AND ''
                                      (map (\<lambda>key. escapeFieldName key @ '' = ?'') (map fst fs))),
                         map snd ds @ map snd fs))
             else
               (case filt of
                  JStr s \<Rightarrow>
                    if trim s \<noteq> [] then
                      Inr (''UPDATE '' @ escapeFieldName (tableName this) @ '' SET ''
                           @ join '', '' (map (\<lambda>key. escapeFieldName key @ '' = ?'') (map fst ds))
                           @ '' '' @ s,
                           map snd ds)
                    else Inl (Error ''A valid filter condition must be provided.'')
                | _ \<Rightarrow> Inl (Error ''A valid filter condition must be provided.''))))"

text \<open>
  \<^verbatim>\<open>updateByFilterAsync(connection, filter, datas)\<close>: everything is inside \<^verbatim>\<open>try\<close>, so
  each error is thrown again as a new \<^verbatim>\<open>Error\<close>.
\<close>

definition updateByFilterAsync ::
  "platform \<Rightarrow> mysqlserver \<Rightarrow> connection \<Rightarrow> jsval \<Rightarrow> jsval \<Rightarrow> trace \<Rightarrow> (error + bool) \<times> trace"
where
  "updateByFilterAsync P this connection filt datas t =
     (case updateStatement this filt datas of
        Inl e \<Rightarrow> (Inl (rethrow e), t)
      | Inr (sql, vals) \<Rightarrow>
          (case queryAsync P connection sql vals t of
             (Inl e, t') \<Rightarrow> (Inl (rethrow e), t')
           | (Inr result, t') \<Rightarrow> (Inr (affected result), t')))"

text \<open>The message of the error \<^verbatim>\<open>deleteByFilterAsync\<close> throws for an unusable filter (UTF-8).\<close>

definition deleteFilterMessage :: string where
  "deleteFilterMessage =
     [
      CHR 0xEC, CHR 0x9C, CHR 0xA0, CHR 0xED, CHR 0x9A, CHR 0xA8, CHR 0xED, CHR 0x95,
      CHR 0x9C, CHR 0x20, CHR 0xED, CHR 0x95, CHR 0x84, CHR 0xED, CHR 0x84, CHR 0xB0,
      CHR 0x20, CHR 0xEC, CHR 0xA1, CHR 0xB0, CHR 0xEA, CHR 0xB1, CHR 0xB4, CHR 0xEC,
      CHR 0x9D, CHR 0xB4, CHR 0x20, CHR 0xEC, CHR 0xA0, CHR 0x9C, CHR 0xEA, CHR 0xB3,
      CHR 0xB5, CHR 0xEB, CHR 0x90, CHR 0x98, CHR 0xEC, CHR 0x96, CHR 0xB4, CHR 0xEC,
      CHR 0x95, CHR 0xBC, CHR 0x20, CHR 0xED, CHR 0x95, CHR 0xA9, CHR 0xEB, CHR 0x8B,
      CHR 0x88, CHR 0xEB, CHR 0x8B, CHR 0xA4]"

text \<open>
  The statement of \<^verbatim>\<open>deleteByFilterAsync\<close>. Here a non-blank string filter is put after
  the keyword \<^verbatim>\<open>WHERE\<close>.
\<close>

definition deleteStatement :: "mysqlserver \<Rightarrow> jsval \<Rightarrow> error + string \<times> jsval list" where
  "deleteStatement this filt =
     (if is_plain_object filt then
        (case entries filt of
           Inl e \<Rightarrow> Inl e
         | Inr fs \<Rightarrow>
             Inr (''DELETE FROM '' @ escapeFieldName (tableName this) @ '' ''
                  @ (''WHERE '' @ join '' AND ''
                       (map (\<lambda>key. escapeFieldName key @ '' = ?'') (map fst fs))),
                  map snd fs))
      else
        (case filt of
           JStr s \<Rightarrow>
             if trim s \<noteq> [] then
               Inr (''DELETE FROM '' @ escapeFieldName (tableName this) @ '' '' @ (''WHERE '' @ s),
                    [])
             else Inl (Error deleteFilterMessage)
         | _ \<Rightarrow> Inl (Error deleteFilterMessage)))"

definition deleteByFilterAsync ::
  "platform \<Rightarrow> mysqlserver \<Rightarrow> connection \<Rightarrow> jsval \<Rightarrow> trace \<Rightarrow> (error + bool) \<times> trace"
where
  "deleteByFilterAsync P this connection filt t =
     (case deleteStatement this filt of
        Inl e \<Rightarrow> (Inl (rethrow e), t)
      | Inr (sql, vals) \<Rightarrow>
          (case queryAsync P connection sql vals t of
             (Inl e, t') \<Rightarrow> (Inl (rethrow e), t')
           | (Inr result, t') \<Rightarrow> (Inr (affected result), t')))"

definition upsertSql :: "mysqlserver \<Rightarrow> string list \<Rightarrow> string" where
  "upsertSql this columns =
     newline @ ''    INSERT INTO '' @ escapeFieldName (tableName this)
     @ newline @ ''    ('' @ join '', '' (map escapeFieldName columns) @ '')''
     @ newline @ ''    VALUES ('' @ join '', '' (map (\<lambda>c. ''?'') columns) @ '')''
     @ newline @ ''    ON DUPLICATE KEY UPDATE''
     @ newline @ ''    ''
     @ join '', '' (map (\<lambda>col. escapeFieldName col @ '' = VALUES('' @ escapeFieldName col @ '')'')
                      columns)
     @ newline @ ''  ''"

text \<open>
  \<^verbatim>\<open>upsertAsync(connection, filter, data)\<close>. It calls \<^verbatim>\<open>connection.query\<close> itself, which
  on the value \<^verbatim>\<open>false\<close> is not a function, and throws a failure on unchanged.
\<close>

definition upsertAsync ::
  "platform \<Rightarrow> mysqlserver \<Rightarrow> connection \<Rightarrow> jsval \<Rightarrow> jsval \<Rightarrow> trace \<Rightarrow> (error + bool) \<times> trace"
where
  "upsertAsync P this connection filt data t =
     (if \<not> is_plain_object filt
      then (Inl (Error ''Filter must be a non-empty object''), t)
      else
        (case entries filt of
           Inl e \<Rightarrow> (Inl e, t)
         | Inr fs \<Rightarrow>
             if length fs = 0 then (Inl (Error ''Filter must be a non-empty object''), t)
             else if \<not> is_plain_object data
             then (Inl (Error ''Data must be a non-empty object''), t)
             else
               (case entries data of
                  Inl e \<Rightarrow> (Inl e, t)
                | Inr ds \<Rightarrow>
                    if length ds = 0 then (Inl (Error ''Data must be a non-empty object''), t)
                    else
                      (case connection of
                         ConnFalse \<Rightarrow> (Inl (TypeError ''connection.query is not a function''), t)
                       | Conn \<Rightarrow>
                           (case mysql_query P t (upsertSql this (map fst ds)) (map snd ds) of
                              Inl e \<Rightarrow>
                                (Inl e, t @ [Query (upsertSql this (map fst ds)) (map snd ds)])
                            | Inr result \<Rightarrow>
                                (Inr (affected (Some result)),
                                 t @ [Query (upsertSql this (map fst ds)) (map snd ds)]))))))"

subsection \<open>Cached reads\<close>

text \<open>
  \<^verbatim>\<open>mysql.core.js\<close> imports the default export of \<^verbatim>\<open>./redis.core.js\<close> under the name
  \<^verbatim>\<open>redisServer\<close> and calls \<^verbatim>\<open>redisServer.getOrSetCache(...)\<close>. That default export is the
  class \<^verbatim>\<open>redisserver\<close>, on which the instance method \<^verbatim>\<open>getOrSetCache\<close> is not a property,
  so the call as written throws a \<^verbatim>\<open>TypeError\<close>. The receiver is a parameter of the
  model: the class, as imported, or an instance of it, for which the call reaches
  \<^verbatim>\<open>getOrSetCache\<close> above.
\<close>

datatype redis_import = RedisClass | RedisInstance

definition call_getOrSetCache ::
  "platform \<Rightarrow> redis_import \<Rightarrow> string \<Rightarrow> (trace \<Rightarrow> (error + jsval) \<times> trace) \<Rightarrow> int option
   \<Rightarrow> trace \<Rightarrow> (error + jsval) \<times> trace"
where
  "call_getOrSetCache P redisServer key fetchFunction expireSeconds t =
     (case redisServer of
        RedisClass \<Rightarrow> (Inl (TypeError ''redisServer.getOrSetCache is not a function''), t)
      | RedisInstance \<Rightarrow>
          (case getOrSetCache P key fetchFunction expireSeconds t of
             (v, t') \<Rightarrow> (Inr v, t')))"

text \<open>The \<^verbatim>\<open>cacheKey\<close> each cached read builds before it calls the helper.\<close>

definition findOne_cacheKey :: "mysqlserver \<Rightarrow> jsval \<Rightarrow> string \<Rightarrow> string" where
  "findOne_cacheKey this filt select =
     array_join ''__'' [JStr ''mysql'', JStr (tableName this), JSON_stringify filt, JStr select]"

definition findByFilter_cacheKey :: "mysqlserver \<Rightarrow> jsval \<Rightarrow> string \<Rightarrow> jsval \<Rightarrow> string" where
  "findByFilter_cacheKey this filt select orderBy =
     array_join ''__''
       [JStr ''mysql'', JStr (tableName this), JSON_stringify filt, JStr select, orderBy]"

definition count_cacheKey :: "mysqlserver \<Rightarrow> jsval \<Rightarrow> string" where
  "count_cacheKey this filt =
     array_join ''__'' [JStr ''mysql'', JStr (tableName this), JSON_stringify filt]"

definition findOneByFilterFromCacheAsync ::
  "platform \<Rightarrow> redis_import \<Rightarrow> mysqlserver \<Rightarrow> connection \<Rightarrow> jsval \<Rightarrow> jsval list \<Rightarrow> string
   \<Rightarrow> int option \<Rightarrow> trace \<Rightarrow> (error + jsval) \<times> trace"
where
  "findOneByFilterFromCacheAsync P redisServer this connection filt likeFields select
       expireSeconds t =
     (if \<not> is_plain_object (default_object filt)
      then (Inl (Error ''Data must be an object''), t)
      else
        call_getOrSetCache P redisServer
          (findOne_cacheKey this (default_object filt) select)
          (findOneByFilterAsync P this connection (default_object filt) likeFields select)
          (default_expire expireSeconds) t)"

definition findByFilterFromCacheAsync ::
  "platform \<Rightarrow> redis_import \<Rightarrow> mysqlserver \<Rightarrow> connection \<Rightarrow> jsval \<Rightarrow> jsval list \<Rightarrow> string
   \<Rightarrow> jsval \<Rightarrow> int option \<Rightarrow> trace \<Rightarrow> (error + jsval) \<times> trace"
where
  "findByFilterFromCacheAsync P redisServer this connection filt likeFields select orderBy
       expireSeconds t =
     (if \<not> is_plain_object (default_object filt)
      then (Inl (Error ''Data must be an object''), t)
      else
        call_getOrSetCache P redisServer
          (findByFilter_cacheKey this (default_object filt) select (default_empty orderBy))
          (findByFilterAsync P this connection (default_object filt) likeFields select
             (default_empty orderBy))
          (default_expire expireSeconds) t)"

definition countByFilterFromCacheAsync ::
  "platform \<Rightarrow> redis_import \<Rightarrow> mysqlserver \<Rightarrow> connection \<Rightarrow> jsval \<Rightarrow> jsval list \<Rightarrow> int option
   \<Rightarrow> trace \<Rightarrow> (error + jsval) \<times> trace"
where
  "countByFilterFromCacheAsync P redisServer this connection filt likeFields expireSeconds t =
     (if \<not> is_plain_object (default_object filt)
      then (Inl (Error ''Data must be an object''), t)
      else
        call_getOrSetCache P redisServer
          (count_cacheKey this (default_object filt))
          (countByFilterAsync P this connection (default_object filt) likeFields)
          (default_expire expireSeconds) t)"

section \<open>Example bindings and environments\<close>

text \<open>
  The concrete inputs at which theorems are instantiated below. \<open>diaries\<close> is the binding
  of the repository's \<^verbatim>\<open>DiaryModel\<close>, \<^verbatim>\<open>super('diaries', 'id')\<close>.
\<close>

definition diaries :: mysqlserver where
  "diaries = \<lparr> tableName = ''diaries'', primaryField = ''id'', sortKey = '''' \<rparr>"

definition count_row :: "int \<Rightarrow> dbresult" where
  "count_row n = Rows [JObj [(''CNT'', JNum n)]]"

text \<open>
  A diaries table where twelve titles contain the text searched for; both ways of
  counting give twelve.
\<close>

definition diary_answers :: "trace \<Rightarrow> string \<Rightarrow> jsval list \<Rightarrow> error + dbresult" where
  "diary_answers t sql vals =
     (if sql = countSql diaries ''WHERE `title` LIKE ?'' then Inr (count_row 12)
      else if sql = countByFilterSql diaries ''WHERE `title` LIKE ?'' then Inr (count_row 12)
      else Inr (Rows [JObj [(''id'', JNum 2), (''title'', JStr ''day two'')],
                      JObj [(''id'', JNum 1), (''title'', JStr ''day one'')]]))"





text \<open>
  A cache backend that is out of memory: lookups are answered (the key is absent),
  \<^verbatim>\<open>SET\<close> is refused, so the promise \<^verbatim>\<open>redisClient.set\<close> returned is rejected, and
  \<^verbatim>\<open>EXPIRE\<close> on the missing key is answered with \<^verbatim>\<open>false\<close>.
\<close>

definition oom_platform :: platform where
  "oom_platform =
     \<lparr> mysql_query = diary_answers,
       redis_get = (\<lambda>t k. Inr None),
       redis_set = (\<lambda>t k v. Rejected (Error ''OOM command not allowed when used memory > maxmemory'')),
       redis_expire = (\<lambda>t k n. Inr (JBool False)),
       JSON_parse = (\<lambda>s. Inl (Error ''Unexpected token'')),
       config_env = ''dev'',
       config_redis_expireTTL = 60 \<rparr>"

text \<open>A fetch callback that finds one row without touching the environment.\<close>

definition fetch_one_row :: "trace \<Rightarrow> (error + jsval) \<times> trace" where
  "fetch_one_row t = (Inr (JArr [JObj [(''id'', JNum 1)]]), t)"

text \<open>An empty cache in front of a primary store whose connection is lost.\<close>

definition lost_platform :: platform where
  "lost_platform =
     \<lparr> mysql_query = (\<lambda>t sql vals. Inl (Error ''Connection lost'')),
       redis_get = (\<lambda>t k. Inr None),
       redis_set = (\<lambda>t k v. Fulfilled (JStr ''OK'')),
       redis_expire = (\<lambda>t k n. Inr (JBool True)),
       JSON_parse = (\<lambda>s. Inl (Error ''Unexpected token'')),
       config_env = ''dev'',
       config_redis_expireTTL = 60 \<rparr>"

text \<open>A primary store that accepts every statement, reporting one affected row and id 7.\<close>

definition insert_platform :: platform where
  "insert_platform =
     \<lparr> mysql_query = (\<lambda>t sql vals. Inr (ResultSetHeader 1 7)),
       redis_get = (\<lambda>t k. Inr None),
       redis_set = (\<lambda>t k v. Fulfilled (JStr ''OK'')),
       redis_expire = (\<lambda>t k n. Inr (JBool True)),
       JSON_parse = (\<lambda>s. Inl (Error ''Unexpected token'')),
       config_env = ''dev'',
       config_redis_expireTTL = 60 \<rparr>"


section \<open>Flat mappings, as the specification names them\<close>

text \<open>
  The specification's data model has a filter or data argument map column names to scalar
  values; a \<^emph>\<open>flat key-value mapping\<close> is an object none of whose values is itself an object
  or an array.
\<close>

fun scalar :: "jsval \<Rightarrow> bool" where
  "scalar (JArr xs) = False"
| "scalar (JObj es) = False"
| "scalar v = True"

fun flat_mapping :: "jsval \<Rightarrow> bool" where
  "flat_mapping (JObj es) = list_all (\<lambda>e. scalar (snd e)) es"
| "flat_mapping v = False"

section \<open>Shared lemmas\<close>

lemma whereLoop_spec:
  "whereLoop likeFields es conditions vals =
     (conditions @ map (condition_of likeFields) (constraining es),
      vals @ map (bound_of likeFields) (constraining es))"
  by (induction es arbitrary: conditions vals)
     (auto simp: constraining_def condition_of_def bound_of_def)

lemma buildWhereClause_JObj:
  "buildWhereClause (JObj es) likeFields = Inr (where_spec likeFields es)"
  by (simp add: buildWhereClause_def whereLoop_spec where_spec_def constraining_def)



lemmas eval_defs =
  buildWhereClause_def buildOrderByClause_def default_object_def default_empty_def
  default_expire_def queryAsync_def countSql_def pageSql_def countByFilterSql_def newline_def
  escapeFieldName_def is_plain_object_def where_spec_def constraining_def condition_of_def
  bound_of_def trim_def parseInt_def int_toString_def digit_char_def is_space_def is_digit_def
  digit_value_def digits_value_def Let_def

section \<open>Properties of the query builder\<close>

text \<open>
  C1. For every filter mapping and like-field list, \<^verbatim>\<open>_buildWhereClause\<close> returns the
  clause the specification describes: one condition per entry whose value is neither
  \<^verbatim>\<open>null\<close> nor \<^verbatim>\<open>undefined\<close>, in the mapping's iteration order and joined by
  \<^verbatim>\<open>AND\<close> after the keyword \<^verbatim>\<open>WHERE\<close>; a like-field gives \<^verbatim>\<open>`col` LIKE ?\<close> bound to
  \<^verbatim>\<open>%value%\<close>, any other field \<^verbatim>\<open>`col` = ?\<close> bound to the value itself; the bound values
  are as many as the conditions and in the same order; an empty mapping gives the empty
  clause and no bound value.
\<close>

theorem buildWhereClause_spec:
  "buildWhereClause (JObj es) likeFields = Inr (where_spec likeFields es)
   \<and> length (snd (where_spec likeFields es)) = length (constraining es)
   \<and> snd (where_spec likeFields es) = map (bound_of likeFields) (constraining es)
   \<and> fst (where_spec likeFields es) =
       (if constraining es = [] then []
        else ''WHERE '' @ join '' AND '' (map (condition_of likeFields) (constraining es)))
   \<and> buildWhereClause (JObj []) likeFields = Inr ([], [])"
proof -
  have loop: "whereLoop likeFields es [] [] =
                (map (condition_of likeFields) (constraining es),
                 map (bound_of likeFields) (constraining es))"
    using whereLoop_spec [of likeFields es "[]" "[]"] by simp
  have built: "buildWhereClause (JObj es) likeFields = Inr (where_spec likeFields es)"
  proof (cases "constraining es = []")
    case True
    with loop show ?thesis
      by (simp add: buildWhereClause_def where_spec_def)
  next
    case False
    then have "es \<noteq> []"
      by (auto simp: constraining_def)
    with False loop show ?thesis
      by (simp add: buildWhereClause_def where_spec_def)
  qed
  have count: "length (snd (where_spec likeFields es)) = length (constraining es)"
    and binds: "snd (where_spec likeFields es) = map (bound_of likeFields) (constraining es)"
    and clause: "fst (where_spec likeFields es) =
       (if constraining es = [] then []
        else ''WHERE '' @ join '' AND '' (map (condition_of likeFields) (constraining es)))"
    by (simp_all add: where_spec_def)
  have empty: "buildWhereClause (JObj []) likeFields = Inr ([], [])"
    by (simp add: buildWhereClause_def)
  from built count binds clause empty show ?thesis by simp
qed


section \<open>Paging\<close>




section \<open>The cache-aside helper\<close>

text \<open>
  C3 at an input where the code departs from it. The key is absent, the fetch callback
  returns one row (a truthy result), and the backend refuses the \<^verbatim>\<open>SET\<close>. The rejection
  of the promise that \<^verbatim>\<open>setAsync\<close> returns without awaiting is not caught by the
  \<^verbatim>\<open>try\<close> block of \<^verbatim>\<open>setAsync\<close>; it reaches the \<^verbatim>\<open>catch\<close> of \<^verbatim>\<open>getOrSetCache\<close>, which
  returns \<^verbatim>\<open>null\<close> in place of the fresh result.
\<close>

theorem getOrSetCache_rejected_store:
  "getOrSetCache oom_platform ''k'' fetch_one_row (Some 60) [] =
     (JNull,
      [RedisGet ''dev_k'',
       RedisSet ''dev_k'' (JSON_stringify (JArr [JObj [(''id'', JNum 1)]])),
       RedisExpire ''dev_k'' 60])
   \<and> fst (getOrSetCache oom_platform ''k'' fetch_one_row (Some 0) []) = JNull
   \<and> fst (fetch_one_row [RedisGet ''dev_k'']) = Inr (JArr [JObj [(''id'', JNum 1)]])"
  by (simp add: getOrSetCache_def getAsync_def setAsync_def oom_platform_def fetch_one_row_def
      Let_def)

text \<open>
  What \<^verbatim>\<open>getOrSetCache\<close> does in the cases C3 describes rightly: a truthy stored string
  is parsed and returned without calling the callback; on a miss a falsy fetch result is
  returned unstored; a truthy one is returned after \<^verbatim>\<open>setAsync\<close> whenever \<^verbatim>\<open>setAsync\<close>
  itself returns, which covers a throw of \<^verbatim>\<open>set\<close> and every failure of \<^verbatim>\<open>expire\<close>.
\<close>

lemma getOrSetCache_hit:
  assumes "redis_get P t (config_env P @ ''_'' @ key) = Inr (Some s)" and "s \<noteq> []"
    and "JSON_parse P s = Inr v"
  shows "getOrSetCache P key fetchFunction expireSeconds t =
           (v, t @ [RedisGet (config_env P @ ''_'' @ key)])"
  using assms by (simp add: getOrSetCache_def getAsync_def Let_def)

lemma getOrSetCache_miss_stored:
  assumes "fst (getAsync P key t) = cached" and "\<not> truthy cached"
    and "fetchFunction (snd (getAsync P key t)) = (Inr result, t2)" and "truthy result"
    and "setAsync P key (JSON_stringify result) expireSeconds t2 = (Inr stored, t3)"
  shows "getOrSetCache P key fetchFunction expireSeconds t = (result, t3)"
  using assms by (simp add: getOrSetCache_def case_prod_beta)

lemma setAsync_swallows:
  assumes "redis_set P t (config_env P @ ''_'' @ key) val = Throws e
           \<or> (\<exists>v. redis_set P t (config_env P @ ''_'' @ key) val = Fulfilled v)
           \<or> (0 < (case expireTTL of None \<Rightarrow> config_redis_expireTTL P | Some n \<Rightarrow> n)
              \<and> (\<exists>e'. redis_expire P (t @ [RedisSet (config_env P @ ''_'' @ key) val])
                         (config_env P @ ''_'' @ key)
                         (case expireTTL of None \<Rightarrow> config_redis_expireTTL P | Some n \<Rightarrow> n)
                       = Inl e'))"
  shows "\<exists>stored t'. setAsync P key val expireTTL t = (Inr stored, t')"
  using assms by (auto simp: setAsync_def Let_def split: settled.splits sum.splits)

text \<open>
  The case C3 gets wrong, in general: the promise of \<^verbatim>\<open>set\<close> is rejected and \<^verbatim>\<open>expire\<close>
  is either not called or answered. Then \<^verbatim>\<open>setAsync\<close> throws and the fresh result is lost.
\<close>

lemma setAsync_rejects:
  assumes "redis_set P t (config_env P @ ''_'' @ key) val = Rejected e"
    and "(case expireTTL of None \<Rightarrow> config_redis_expireTTL P | Some n \<Rightarrow> n) \<le> 0
         \<or> (\<exists>r. redis_expire P (t @ [RedisSet (config_env P @ ''_'' @ key) val])
                    (config_env P @ ''_'' @ key)
                    (case expireTTL of None \<Rightarrow> config_redis_expireTTL P | Some n \<Rightarrow> n)
                  = Inr r)"
  shows "fst (setAsync P key val expireTTL t) = Inl e"
  using assms by (auto simp: setAsync_def Let_def)

lemma getOrSetCache_loses_fresh_result:
  assumes "\<not> truthy (fst (getAsync P key t))"
    and "fetchFunction (snd (getAsync P key t)) = (Inr result, t2)" and "truthy result"
    and "fst (setAsync P key (JSON_stringify result) expireSeconds t2) = Inl e"
  shows "fst (getOrSetCache P key fetchFunction expireSeconds t) = JNull"
  using assms by (simp add: getOrSetCache_def case_prod_beta split: sum.splits)

section \<open>Error propagation of cached reads\<close>

text \<open>
  The uncached reads do throw a failure of their statement on to the caller, wrapped in
  a new \<^verbatim>\<open>Error\<close> by \<^verbatim>\<open>queryAsync\<close> and once more by the read itself.
\<close>

lemma findOneByFilterAsync_rethrows:
  assumes "mysql_query P t
             (''SELECT '' @ select @ '' FROM '' @ escapeFieldName (tableName this) @ '' ''
              @ fst (where_spec likeFields es) @ '' LIMIT 1'')
             (snd (where_spec likeFields es)) = Inl e"
  shows "fst (findOneByFilterAsync P this Conn (JObj es) likeFields select t) =
           Inl (rethrow (rethrow e))"
  using assms
  by (simp add: findOneByFilterAsync_def default_object_def is_plain_object_def
      buildWhereClause_JObj queryAsync_def case_prod_beta)

lemma findByFilterAsync_rethrows:
  assumes "buildOrderByClause this (default_empty orderBy) = Inr orderByClause"
    and "mysql_query P t
             (''SELECT '' @ select @ '' FROM '' @ escapeFieldName (tableName this) @ '' ''
              @ fst (where_spec likeFields es) @ '' '' @ orderByClause)
             (snd (where_spec likeFields es)) = Inl e"
  shows "fst (findByFilterAsync P this Conn (JObj es) likeFields select orderBy t) =
           Inl (rethrow (rethrow e))"
  using assms
  by (simp add: findByFilterAsync_def default_object_def is_plain_object_def
      buildWhereClause_JObj queryAsync_def case_prod_beta)

lemma countByFilterAsync_rethrows:
  assumes "mysql_query P t (countByFilterSql this (fst (where_spec likeFields es)))
             (snd (where_spec likeFields es)) = Inl e"
  shows "fst (countByFilterAsync P this Conn (JObj es) likeFields t) = Inl (rethrow (rethrow e))"
  using assms
  by (simp add: countByFilterAsync_def default_object_def is_plain_object_def
      buildWhereClause_JObj queryAsync_def case_prod_beta)

text \<open>
  With the helper class itself as the receiver, as \<^verbatim>\<open>mysql.core.js\<close> imports it, a cached
  read of an object filter ends in a \<^verbatim>\<open>TypeError\<close> before any lookup or statement.
\<close>

lemma cached_reads_on_the_class:
  assumes "is_plain_object (default_object filt)"
  shows "findByFilterFromCacheAsync P RedisClass this connection filt likeFields select orderBy
           expireSeconds t =
           (Inl (TypeError ''redisServer.getOrSetCache is not a function''), t)"
    and "findOneByFilterFromCacheAsync P RedisClass this connection filt likeFields select
           expireSeconds t =
           (Inl (TypeError ''redisServer.getOrSetCache is not a function''), t)"
    and "countByFilterFromCacheAsync P RedisClass this connection filt likeFields
           expireSeconds t =
           (Inl (TypeError ''redisServer.getOrSetCache is not a function''), t)"
  using assms
  by (simp_all add: findByFilterFromCacheAsync_def findOneByFilterFromCacheAsync_def
      countByFilterFromCacheAsync_def call_getOrSetCache_def)


text \<open>
  C4 at an input where the code departs from it. The connection is lost, so the
  statement of \<^verbatim>\<open>findByFilterAsync\<close> fails and the uncached read throws. The same read
  as the fetch callback of \<^verbatim>\<open>getOrSetCache\<close>, on a cache miss, has its error caught by
  the helper: the caller gets \<^verbatim>\<open>null\<close>, directly and through
  \<^verbatim>\<open>findByFilterFromCacheAsync\<close> called on a helper instance.
\<close>

theorem cached_read_swallows_execution_error:
  "findByFilterAsync lost_platform diaries Conn (JObj [(''id'', JNum 1)]) [] ''*'' (JStr []) [] =
     (Inl (Error ''Error: Error: Connection lost''),
      [Query ''SELECT * FROM `diaries` WHERE `id` = ? ORDER BY `id` DESC'' [JNum 1]])
   \<and> getOrSetCache lost_platform ''k''
       (findByFilterAsync lost_platform diaries Conn (JObj [(''id'', JNum 1)]) [] ''*'' (JStr []))
       (Some 60) [] =
     (JNull,
      [RedisGet ''dev_k'',
       Query ''SELECT * FROM `diaries` WHERE `id` = ? ORDER BY `id` DESC'' [JNum 1]])
   \<and> fst (findByFilterFromCacheAsync lost_platform RedisInstance diaries Conn
            (JObj [(''id'', JNum 1)]) [] ''*'' (JStr []) (Some 60) []) = Inr JNull"
  by (simp add: findByFilterFromCacheAsync_def call_getOrSetCache_def getOrSetCache_def
      getAsync_def findByFilterAsync_def lost_platform_def diaries_def rethrow_def eval_defs)

section \<open>Update and delete by filter\<close>

text \<open>
  C5 at an input where the code departs from it. The empty mapping \<^verbatim>\<open>{}\<close> is an object
  and not an array, so \<^verbatim>\<open>updateByFilterAsync\<close> takes it for a usable filter: no error is
  thrown while the statement is built, and a statement that ends in a bare \<^verbatim>\<open>WHERE\<close> is
  sent over the connection, whatever the connection answers.
\<close>

theorem updateByFilterAsync_empty_filter:
  "updateStatement diaries (JObj []) (JObj [(''title'', JStr ''y'')]) =
     Inr (''UPDATE `diaries` SET `title` = ? WHERE '', [JStr ''y''])
   \<and> snd (updateByFilterAsync P diaries Conn (JObj []) (JObj [(''title'', JStr ''y'')]) []) =
       [Query ''UPDATE `diaries` SET `title` = ? WHERE '' [JStr ''y'']]"
proof -
  have stmt: "updateStatement diaries (JObj []) (JObj [(''title'', JStr ''y'')]) =
     Inr (''UPDATE `diaries` SET `title` = ? WHERE '', [JStr ''y''])"
    by (simp add: updateStatement_def diaries_def eval_defs)
  show ?thesis
    by (simp add: stmt updateByFilterAsync_def queryAsync_def split: sum.splits)
qed

text \<open>
  The rest of what C5 says holds: the result is \<^verbatim>\<open>true\<close> exactly when the header
  reports at least one affected row, and a data argument that is not a non-empty object,
  or a filter that is neither an object nor a non-blank string, is refused with the trace
  unchanged.
\<close>

lemma updateByFilterAsync_result:
  assumes "updateStatement this filt datas = Inr (sql, vals)"
    and "mysql_query P t sql vals = Inr (ResultSetHeader a i)"
  shows "updateByFilterAsync P this Conn filt datas t = (Inr (0 < a), t @ [Query sql vals])"
  using assms by (simp add: updateByFilterAsync_def queryAsync_def)

lemma updateByFilterAsync_refuses_data:
  assumes "\<forall>ds. datas = JObj ds \<longrightarrow> ds = []"
  shows "\<exists>e. updateByFilterAsync P this connection filt datas t = (Inl e, t)"
  using assms
  by (cases datas) (auto simp: updateByFilterAsync_def updateStatement_def is_plain_object_def)

lemma updateByFilterAsync_refuses_filter:
  assumes "\<not> is_plain_object filt" and "\<forall>s. filt = JStr s \<longrightarrow> trim s = []"
  shows "\<exists>e. updateByFilterAsync P this connection filt datas t = (Inl e, t)"
  using assms
  by (cases filt)
     (auto simp: updateByFilterAsync_def updateStatement_def is_plain_object_def
           split: sum.splits)

text \<open>
  C6 at an input where the code departs from it. For the raw predicate \<^verbatim>\<open>id = 5\<close>
  \<^verbatim>\<open>deleteByFilterAsync\<close> writes \<^verbatim>\<open>WHERE id = 5\<close>, while \<^verbatim>\<open>updateByFilterAsync\<close> appends
  the string as it is, without the keyword.
\<close>

theorem update_delete_string_filter:
  "updateStatement diaries (JStr ''id = 5'') (JObj [(''title'', JStr ''y'')]) =
     Inr (''UPDATE `diaries` SET `title` = ? id = 5'', [JStr ''y''])
   \<and> deleteStatement diaries (JStr ''id = 5'') =
     Inr (''DELETE FROM `diaries` WHERE id = 5'', [])
   \<and> snd (updateByFilterAsync P diaries Conn (JStr ''id = 5'') (JObj [(''title'', JStr ''y'')]) [])
       = [Query ''UPDATE `diaries` SET `title` = ? id = 5'' [JStr ''y'']]
   \<and> snd (deleteByFilterAsync P diaries Conn (JStr ''id = 5'') [])
       = [Query ''DELETE FROM `diaries` WHERE id = 5'' []]"
proof -
  have u: "updateStatement diaries (JStr ''id = 5'') (JObj [(''title'', JStr ''y'')]) =
     Inr (''UPDATE `diaries` SET `title` = ? id = 5'', [JStr ''y''])"
    by (simp add: updateStatement_def diaries_def eval_defs)
  have d: "deleteStatement diaries (JStr ''id = 5'') =
     Inr (''DELETE FROM `diaries` WHERE id = 5'', [])"
    by (simp add: deleteStatement_def diaries_def eval_defs)
  show ?thesis
    by (simp add: u d updateByFilterAsync_def deleteByFilterAsync_def queryAsync_def
        split: sum.splits)
qed

text \<open>
  For a mapping the two functions do agree: the same WHERE clause of escaped-column
  equalities, the mapping's values bound in order (after the data's values in the
  update), and \<^verbatim>\<open>true\<close> exactly when a row was affected.
\<close>

lemma update_delete_mapping_filter:
  assumes "ds \<noteq> []"
  shows "updateStatement this (JObj fs) (JObj ds) =
           Inr (''UPDATE '' @ escapeFieldName (tableName this) @ '' SET ''
                @ join '', '' (map (\<lambda>key. escapeFieldName key @ '' = ?'') (map fst ds))
                @ '' '' @ (''WHERE '' @ join '' AND ''
                             (map (\<lambda>key. escapeFieldName key @ '' = ?'') (map fst fs))),
                map snd ds @ map snd fs)
         \<and> deleteStatement this (JObj fs) =
           Inr (''DELETE FROM '' @ escapeFieldName (tableName this) @ '' ''
                @ (''WHERE '' @ join '' AND ''
                     (map (\<lambda>key. escapeFieldName key @ '' = ?'') (map fst fs))),
                map snd fs)"
  using assms by (simp add: updateStatement_def deleteStatement_def is_plain_object_def)

lemma deleteByFilterAsync_result:
  assumes "deleteStatement this filt = Inr (sql, vals)"
    and "mysql_query P t sql vals = Inr (ResultSetHeader a i)"
  shows "deleteByFilterAsync P this Conn filt t = (Inr (0 < a), t @ [Query sql vals])"
  using assms by (simp add: deleteByFilterAsync_def queryAsync_def)

section \<open>Insert and upsert\<close>

text \<open>
  C7, as amended. \<^verbatim>\<open>insertAsync\<close> throws, before any statement is sent, when the data
  argument is anything but a non-empty object: a primitive, an array, \<^verbatim>\<open>null\<close> or the
  empty object. For a non-empty object it returns \<^verbatim>\<open>false\<close> without any statement when
  the execution layer has no result (the connection is \<^verbatim>\<open>false\<close>), and the
  \<^verbatim>\<open>insertId\<close> of the header when the INSERT statement, one placeholder per key, is
  answered. Whether the values of the object are scalars is not checked.
\<close>

theorem insertAsync_contract:
  "((\<forall>ds. datas = JObj ds \<longrightarrow> ds = []) \<longrightarrow>
      (\<exists>e. insertAsync P this connection datas t = (Inl e, t)))
   \<and> (ds \<noteq> [] \<longrightarrow> insertAsync P this ConnFalse (JObj ds) t = (Inr (JBool False), t))
   \<and> (ds \<noteq> [] \<and> mysql_query P t (insertSql this (map fst ds)) (map snd ds)
                   = Inr (ResultSetHeader a i) \<longrightarrow>
        insertAsync P this Conn (JObj ds) t =
          (Inr (JNum i), t @ [Query (insertSql this (map fst ds)) (map snd ds)]))"
proof (intro conjI impI)
  assume "\<forall>ds. datas = JObj ds \<longrightarrow> ds = []"
  then show "\<exists>e. insertAsync P this connection datas t = (Inl e, t)"
    by (cases datas) (auto simp: insertAsync_def is_plain_object_def)
next
  assume "ds \<noteq> []"
  then show "insertAsync P this ConnFalse (JObj ds) t = (Inr (JBool False), t)"
    by (simp add: insertAsync_def is_plain_object_def queryAsync_def)
next
  assume "ds \<noteq> [] \<and> mysql_query P t (insertSql this (map fst ds)) (map snd ds)
                   = Inr (ResultSetHeader a i)"
  then show "insertAsync P this Conn (JObj ds) t =
          (Inr (JNum i), t @ [Query (insertSql this (map fst ds)) (map snd ds)])"
    by (simp add: insertAsync_def is_plain_object_def queryAsync_def)
qed

theorem insertAsync_contract_witness:
  "(\<exists>e. insertAsync insert_platform diaries Conn (JArr []) [] = (Inl e, []))
   \<and> insertAsync insert_platform diaries ConnFalse (JObj [(''title'', JStr ''x'')]) [] =
       (Inr (JBool False), [])
   \<and> insertAsync insert_platform diaries Conn (JObj [(''title'', JStr ''x'')]) [] =
       (Inr (JNum 7), [Query ''INSERT INTO `diaries` (`title`) VALUES (?)'' [JStr ''x'']])"
proof -
  have sql: "insertSql diaries [''title''] = ''INSERT INTO `diaries` (`title`) VALUES (?)''"
    by (simp add: insertSql_def diaries_def escapeFieldName_def)
  have q: "mysql_query insert_platform [] (insertSql diaries (map fst [(''title'', JStr ''x'')]))
             (map snd [(''title'', JStr ''x'')]) = Inr (ResultSetHeader 1 7)"
    by (simp add: insert_platform_def)
  from insertAsync_contract [of "JArr []" insert_platform diaries Conn "[]"
         "[(''title'', JStr ''x'')]" 1 7] q
  show ?thesis by (simp add: sql)
qed

text \<open>
  C7 as stated fails for a mapping that is not flat: a nested object as a value is not
  refused, the INSERT statement is sent with it as a bound value.
\<close>

theorem insertAsync_nested_counterexample:
  "\<not> flat_mapping (JObj [(''title'', JObj [(''en'', JStr ''x'')])])
   \<and> insertAsync insert_platform diaries Conn (JObj [(''title'', JObj [(''en'', JStr ''x'')])]) [] =
       (Inr (JNum 7),
        [Query ''INSERT INTO `diaries` (`title`) VALUES (?)'' [JObj [(''en'', JStr ''x'')]]])"
  by (simp add: insertAsync_def insertSql_def insert_platform_def diaries_def eval_defs)

text \<open>
  C9. For any two non-empty object filters and any non-empty data object,
  \<^verbatim>\<open>upsertAsync\<close> does the same thing: the same result and the same statement with the same
  bound values. On an open connection the one statement sent is built from the table name
  and the data's keys, and bound to the data's values; the filter does not occur in it.
\<close>

theorem upsertAsync_ignores_filter:
  assumes "f1 \<noteq> []" and "f2 \<noteq> []" and "ds \<noteq> []"
  shows "upsertAsync P this connection (JObj f1) (JObj ds) t =
           upsertAsync P this connection (JObj f2) (JObj ds) t
         \<and> snd (upsertAsync P this Conn (JObj f1) (JObj ds) t) =
             t @ [Query (upsertSql this (map fst ds)) (map snd ds)]"
  using assms
  by (simp add: upsertAsync_def is_plain_object_def split: sum.splits)

theorem upsertAsync_ignores_filter_witness:
  "upsertAsync insert_platform diaries Conn (JObj [(''id'', JNum 5)]) (JObj [(''title'', JStr ''y'')]) []
     = upsertAsync insert_platform diaries Conn (JObj [(''title'', JStr ''other'')])
         (JObj [(''title'', JStr ''y'')]) []
   \<and> snd (upsertAsync insert_platform diaries Conn (JObj [(''id'', JNum 5)])
            (JObj [(''title'', JStr ''y'')]) [])
     = [Query (upsertSql diaries [''title'']) [JStr ''y'']]"
proof -
  have f1: "[(''id'', JNum 5)] \<noteq> []" and f2: "[(''title'', JStr ''other'')] \<noteq> []"
    and ds: "[(''title'', JStr ''y'')] \<noteq> []"
    by simp_all
  note th = upsertAsync_ignores_filter [OF f1 f2 ds, of insert_platform diaries Conn "[]"]
  from th have same: "upsertAsync insert_platform diaries Conn (JObj [(''id'', JNum 5)])
                        (JObj [(''title'', JStr ''y'')]) []
     = upsertAsync insert_platform diaries Conn (JObj [(''title'', JStr ''other'')])
         (JObj [(''title'', JStr ''y'')]) []"
    by (rule conjunct1)
  from th have sent: "snd (upsertAsync insert_platform diaries Conn (JObj [(''id'', JNum 5)])
            (JObj [(''title'', JStr ''y'')]) [])
     = [] @ [Query (upsertSql diaries (map fst [(''title'', JStr ''y'')]))
              (map snd [(''title'', JStr ''y'')])]"
    by (rule conjunct2)
  from sent have sent': "snd (upsertAsync insert_platform diaries Conn (JObj [(''id'', JNum 5)])
            (JObj [(''title'', JStr ''y'')]) [])
     = [Query (upsertSql diaries [''title'']) [JStr ''y'']]"
    by simp
  from same sent' show ?thesis by (rule conjI)
qed

section \<open>Cache keys\<close>

text \<open>Every operation only adds events to the trace.\<close>

lemma queryAsync_extends: "\<exists>ext. snd (queryAsync P connection sql vals t) = t @ ext"
  by (cases connection) (simp_all add: queryAsync_def split: sum.splits)

lemma findOneByFilterAsync_extends:
  "\<exists>ext. snd (findOneByFilterAsync P this connection filt likeFields select t) = t @ ext"
  by (cases connection)
     (auto simp: findOneByFilterAsync_def queryAsync_def split: sum.splits prod.splits)

lemma findByFilterAsync_extends:
  "\<exists>ext. snd (findByFilterAsync P this connection filt likeFields select orderBy t) = t @ ext"
  by (cases connection)
     (auto simp: findByFilterAsync_def queryAsync_def split: sum.splits prod.splits)


lemma setAsync_extends: "\<exists>ext. snd (setAsync P key val expireTTL t) = t @ ext"
  by (auto simp: setAsync_def Let_def split: settled.splits sum.splits)

lemma getAsync_trace: "snd (getAsync P key t) = t @ [RedisGet (config_env P @ ''_'' @ key)]"
  by (simp add: getAsync_def Let_def split: sum.splits option.splits)

text \<open>\<^verbatim>\<open>getOrSetCache\<close> begins with a lookup of the key, prefixed by the environment name.\<close>

lemma getOrSetCache_lookup:
  assumes "\<And>t. \<exists>ext. snd (fetchFunction t) = t @ ext"
  shows "\<exists>rest. snd (getOrSetCache P key fetchFunction expireSeconds t) =
           t @ RedisGet (config_env P @ ''_'' @ key) # rest"
proof -
  define k where "k = config_env P @ ''_'' @ key"
  obtain cached t1 where g0: "getAsync P key t = (cached, t1)"
    by (cases "getAsync P key t")
  have t1: "t1 = t @ [RedisGet k]"
    using getAsync_trace [of P key t] g0 by (simp add: k_def)
  obtain r t2 where f0: "fetchFunction t1 = (r, t2)"
    by (cases "fetchFunction t1")
  obtain ext where t2: "t2 = t1 @ ext"
    using assms [of t1] f0 by auto
  have "\<exists>rest. snd (getOrSetCache P key fetchFunction expireSeconds t) = t @ RedisGet k # rest"
  proof (cases "truthy cached")
    case True
    then show ?thesis
      by (simp add: getOrSetCache_def g0 split: sum.splits) (simp add: t1)
  next
    case False
    show ?thesis
    proof (cases r)
      case (Inl e)
      with False show ?thesis by (simp add: getOrSetCache_def g0 f0) (simp add: t1 t2)
    next
      case (Inr result)
      show ?thesis
      proof (cases "truthy result")
        case True
        obtain s t3 where s0: "setAsync P key (JSON_stringify result) expireSeconds t2 = (s, t3)"
          by (cases "setAsync P key (JSON_stringify result) expireSeconds t2")
        obtain ext' where t3: "t3 = t2 @ ext'"
          using setAsync_extends [of P key "JSON_stringify result" expireSeconds t2] s0 by auto
        from False Inr True show ?thesis
          by (cases s; simp add: getOrSetCache_def g0 f0 s0) (simp_all add: t1 t2 t3)
      next
        case nt: False
        with False Inr show ?thesis by (simp add: getOrSetCache_def g0 f0) (simp add: t1 t2)
      qed
    qed
  qed
  then show ?thesis unfolding k_def .
qed

lemma findByFilterFromCacheAsync_lookup:
  "\<exists>rest. snd (findByFilterFromCacheAsync P RedisInstance this connection (JObj es) likeFields
                  select orderBy expireSeconds t) =
     t @ RedisGet (config_env P @ ''_'' @
                     findByFilter_cacheKey this (JObj es) select (default_empty orderBy)) # rest"
proof -
  from getOrSetCache_lookup [of "findByFilterAsync P this connection (JObj es) likeFields select
                                   (default_empty orderBy)", OF findByFilterAsync_extends]
  show ?thesis
    by (simp add: findByFilterFromCacheAsync_def call_getOrSetCache_def default_object_def
        is_plain_object_def case_prod_beta)
qed

lemma findOneByFilterFromCacheAsync_lookup:
  assumes "is_plain_object (default_object filt)"
  shows "\<exists>rest. snd (findOneByFilterFromCacheAsync P RedisInstance this connection filt likeFields
                  select expireSeconds t) =
     t @ RedisGet (config_env P @ ''_'' @ findOne_cacheKey this (default_object filt) select) # rest"
proof -
  from getOrSetCache_lookup [of "findOneByFilterAsync P this connection (default_object filt)
                                   likeFields select", OF findOneByFilterAsync_extends]
  show ?thesis using assms
    by (simp add: findOneByFilterFromCacheAsync_def call_getOrSetCache_def case_prod_beta)
qed


lemma stringify_ab:
  "JSON_stringify (JObj [(''a'', JNum 1), (''b'', JNum 2)]) =
     JStr [CHR ''{'', CHR 0x22, CHR ''a'', CHR 0x22, CHR '':'', CHR ''1'', CHR '','',
           CHR 0x22, CHR ''b'', CHR 0x22, CHR '':'', CHR ''2'', CHR ''}'']"
  by (simp add: JSON_stringify_def json_quote_def json_quote_char_def int_toString_def
      digit_char_def)

lemma stringify_ba:
  "JSON_stringify (JObj [(''b'', JNum 2), (''a'', JNum 1)]) =
     JStr [CHR ''{'', CHR 0x22, CHR ''b'', CHR 0x22, CHR '':'', CHR ''2'', CHR '','',
           CHR 0x22, CHR ''a'', CHR 0x22, CHR '':'', CHR ''1'', CHR ''}'']"
  by (simp add: JSON_stringify_def json_quote_def json_quote_char_def int_toString_def
      digit_char_def)

lemma findByFilter_cacheKey_order:
  "findByFilter_cacheKey this (JObj [(''a'', JNum 1), (''b'', JNum 2)]) select orderBy \<noteq>
   findByFilter_cacheKey this (JObj [(''b'', JNum 2), (''a'', JNum 1)]) select orderBy"
  by (simp add: findByFilter_cacheKey_def array_join_def stringify_ab stringify_ba)

lemma findOne_cacheKey_order:
  "findOne_cacheKey this (JObj [(''a'', JNum 1), (''b'', JNum 2)]) select \<noteq>
   findOne_cacheKey this (JObj [(''b'', JNum 2), (''a'', JNum 1)]) select"
  by (simp add: findOne_cacheKey_def array_join_def stringify_ab stringify_ba)

text \<open>
  C8. The cache keys follow the order of the mapping's keys. The filters
  \<^verbatim>\<open>{a: 1, b: 2}\<close> and \<^verbatim>\<open>{b: 2, a: 1}\<close> hold the same entries, yet for every table, select
  list and sort argument \<^verbatim>\<open>findByFilterFromCacheAsync\<close> and
  \<^verbatim>\<open>findOneByFilterFromCacheAsync\<close> build different cache keys for them, and, called on a
  helper instance, look up different keys in the cache.
\<close>

theorem cache_key_depends_on_key_order:
  "\<exists>f1 f2.
     set f1 = set f2 \<and> distinct (map fst f1) \<and> distinct (map fst f2)
     \<and> (\<forall>this select orderBy.
           findByFilter_cacheKey this (JObj f1) select orderBy \<noteq>
           findByFilter_cacheKey this (JObj f2) select orderBy)
     \<and> (\<forall>this select.
           findOne_cacheKey this (JObj f1) select \<noteq> findOne_cacheKey this (JObj f2) select)
     \<and> (\<forall>P this connection likeFields select orderBy expireSeconds t.
           \<exists>k1 k2 r1 r2. k1 \<noteq> k2
             \<and> snd (findByFilterFromCacheAsync P RedisInstance this connection (JObj f1)
                      likeFields select orderBy expireSeconds t) = t @ RedisGet k1 # r1
             \<and> snd (findByFilterFromCacheAsync P RedisInstance this connection (JObj f2)
                      likeFields select orderBy expireSeconds t) = t @ RedisGet k2 # r2)
     \<and> (\<forall>P this connection likeFields select expireSeconds t.
           \<exists>k1 k2 r1 r2. k1 \<noteq> k2
             \<and> snd (findOneByFilterFromCacheAsync P RedisInstance this connection (JObj f1)
                      likeFields select expireSeconds t) = t @ RedisGet k1 # r1
             \<and> snd (findOneByFilterFromCacheAsync P RedisInstance this connection (JObj f2)
                      likeFields select expireSeconds t) = t @ RedisGet k2 # r2)"
proof (rule exI [of _ "[(''a'', JNum 1), (''b'', JNum 2)]"],
       rule exI [of _ "[(''b'', JNum 2), (''a'', JNum 1)]"], intro conjI allI)
  let ?f1 = "[(''a'', JNum 1), (''b'', JNum 2)]"
  let ?f2 = "[(''b'', JNum 2), (''a'', JNum 1)]"
  show "set ?f1 = set ?f2" by auto
  show "distinct (map fst ?f1)" by simp
  show "distinct (map fst ?f2)" by simp
  show "findByFilter_cacheKey this (JObj ?f1) select orderBy \<noteq>
        findByFilter_cacheKey this (JObj ?f2) select orderBy" for this select orderBy
    by (rule findByFilter_cacheKey_order)
  show "findOne_cacheKey this (JObj ?f1) select \<noteq> findOne_cacheKey this (JObj ?f2) select"
    for this select
    by (rule findOne_cacheKey_order)
  show "\<exists>k1 k2 r1 r2. k1 \<noteq> k2
             \<and> snd (findByFilterFromCacheAsync P RedisInstance this connection (JObj ?f1)
                      likeFields select orderBy expireSeconds t) = t @ RedisGet k1 # r1
             \<and> snd (findByFilterFromCacheAsync P RedisInstance this connection (JObj ?f2)
                      likeFields select orderBy expireSeconds t) = t @ RedisGet k2 # r2"
    for P this connection likeFields select orderBy expireSeconds t
  proof -
    from findByFilterFromCacheAsync_lookup [of P this connection ?f1 likeFields select orderBy
           expireSeconds t]
    obtain r1 where r1: "snd (findByFilterFromCacheAsync P RedisInstance this connection
        (JObj ?f1) likeFields select orderBy expireSeconds t) =
        t @ RedisGet (config_env P @ ''_'' @
              findByFilter_cacheKey this (JObj ?f1) select (default_empty orderBy)) # r1" ..
    from findByFilterFromCacheAsync_lookup [of P this connection ?f2 likeFields select orderBy
           expireSeconds t]
    obtain r2 where r2: "snd (findByFilterFromCacheAsync P RedisInstance this connection
        (JObj ?f2) likeFields select orderBy expireSeconds t) =
        t @ RedisGet (config_env P @ ''_'' @
              findByFilter_cacheKey this (JObj ?f2) select (default_empty orderBy)) # r2" ..
    have ne: "config_env P @ ''_'' @
              findByFilter_cacheKey this (JObj ?f1) select (default_empty orderBy) \<noteq>
          config_env P @ ''_'' @
              findByFilter_cacheKey this (JObj ?f2) select (default_empty orderBy)"
      using findByFilter_cacheKey_order [of this select "default_empty orderBy"]
      by simp
    show ?thesis
    proof (intro exI conjI)
      show "config_env P @ ''_'' @
              findByFilter_cacheKey this (JObj ?f1) select (default_empty orderBy) \<noteq>
          config_env P @ ''_'' @
              findByFilter_cacheKey this (JObj ?f2) select (default_empty orderBy)"
        by (rule ne)
      show "snd (findByFilterFromCacheAsync P RedisInstance this connection
        (JObj ?f1) likeFields select orderBy expireSeconds t) =
        t @ RedisGet (config_env P @ ''_'' @
              findByFilter_cacheKey this (JObj ?f1) select (default_empty orderBy)) # r1"
        by (rule r1)
      show "snd (findByFilterFromCacheAsync P RedisInstance this connection
        (JObj ?f2) likeFields select orderBy expireSeconds t) =
        t @ RedisGet (config_env P @ ''_'' @
              findByFilter_cacheKey this (JObj ?f2) select (default_empty orderBy)) # r2"
        by (rule r2)
    qed
  qed
  show "\<exists>k1 k2 r1 r2. k1 \<noteq> k2
             \<and> snd (findOneByFilterFromCacheAsync P RedisInstance this connection (JObj ?f1)
                      likeFields select expireSeconds t) = t @ RedisGet k1 # r1
             \<and> snd (findOneByFilterFromCacheAsync P RedisInstance this connection (JObj ?f2)
                      likeFields select expireSeconds t) = t @ RedisGet k2 # r2"
    for P this connection likeFields select expireSeconds t
  proof -
    have p1: "is_plain_object (default_object (JObj ?f1))"
      and p2: "is_plain_object (default_object (JObj ?f2))"
      and d1: "default_object (JObj ?f1) = JObj ?f1"
      and d2: "default_object (JObj ?f2) = JObj ?f2"
      by (simp_all add: is_plain_object_def default_object_def)
    from findOneByFilterFromCacheAsync_lookup [OF p1, of P this connection likeFields select
           expireSeconds t]
    obtain r1 where r1: "snd (findOneByFilterFromCacheAsync P RedisInstance this connection
        (JObj ?f1) likeFields select expireSeconds t) =
        t @ RedisGet (config_env P @ ''_'' @ findOne_cacheKey this (JObj ?f1) select) # r1"
      unfolding d1 ..
    from findOneByFilterFromCacheAsync_lookup [OF p2, of P this connection likeFields select
           expireSeconds t]
    obtain r2 where r2: "snd (findOneByFilterFromCacheAsync P RedisInstance this connection
        (JObj ?f2) likeFields select expireSeconds t) =
        t @ RedisGet (config_env P @ ''_'' @ findOne_cacheKey this (JObj ?f2) select) # r2"
      unfolding d2 ..
    have ne: "config_env P @ ''_'' @ findOne_cacheKey this (JObj ?f1) select \<noteq>
          config_env P @ ''_'' @ findOne_cacheKey this (JObj ?f2) select"
      using findOne_cacheKey_order [of this select]
      by simp
    show ?thesis
    proof (intro exI conjI)
      show "config_env P @ ''_'' @ findOne_cacheKey this (JObj ?f1) select \<noteq>
          config_env P @ ''_'' @ findOne_cacheKey this (JObj ?f2) select"
        by (rule ne)
      show "snd (findOneByFilterFromCacheAsync P RedisInstance this connection
        (JObj ?f1) likeFields select expireSeconds t) =
        t @ RedisGet (config_env P @ ''_'' @ findOne_cacheKey this (JObj ?f1) select) # r1"
        by (rule r1)
      show "snd (findOneByFilterFromCacheAsync P RedisInstance this connection
        (JObj ?f2) likeFields select expireSeconds t) =
        t @ RedisGet (config_env P @ ''_'' @ findOne_cacheKey this (JObj ?f2) select) # r2"
        by (rule r2)
    qed
  qed
qed



end
